theory Spec2Isabelle
  imports Main
begin

section \<open>Fragments, types and expression values\<close>

text \<open>
  The expression nodes of \<^verbatim>\<open>lang/ast/ast-expr.ts\<close> lower an expression tree to a
  sequence of SQL fragments. The types below are the ones that file imports from
  \<^verbatim>\<open>model/malloy_types\<close> and \<^verbatim>\<open>ast-types\<close>.
\<close>

datatype FieldValueType =
    TString | TNumber | TBoolean | TDate | TTimestamp | TNull | TRegularExpression | TError

fun typeName :: "FieldValueType \<Rightarrow> string" where
  "typeName TString = ''string''"
| "typeName TNumber = ''number''"
| "typeName TBoolean = ''boolean''"
| "typeName TDate = ''date''"
| "typeName TTimestamp = ''timestamp''"
| "typeName TNull = ''null''"
| "typeName TRegularExpression = ''regular expression''"
| "typeName TError = ''error''"

datatype TimeframeType = Second | Minute | Hour | Day | Week | Month | Quarter | Year

datatype Fragment =
    Text string
  | FieldFragment string
  | AggregateFragment string "Fragment list" "string option"
  | FilterFragment "Fragment list" "FilterCond list"
and FilterCond = FilterCond "Fragment list" bool

fun cond_aggregate :: "FilterCond \<Rightarrow> bool" where
  "cond_aggregate (FilterCond v a) = a"

record FragType =
  dataType :: FieldValueType
  aggregate :: bool

record ExprValue = FragType +
  val :: "Fragment list"
  timeframe :: "TimeframeType option"

text \<open>The single quote character, for messages that end or begin with one.\<close>

definition sq :: string where
  "sq = [CHR 0x27]"

text \<open>JavaScript truthiness of an optional string: \<^verbatim>\<open>undefined\<close> and the empty string are falsy.\<close>

fun truthy :: "string option \<Rightarrow> bool" where
  "truthy None = False"
| "truthy (Some s) = (s \<noteq> [])"

subsection \<open>Helpers of \<^verbatim>\<open>ast-types\<close>, \<^verbatim>\<open>apply-expr\<close> and \<^verbatim>\<open>field-path\<close>\<close>

text \<open>
  Modelled from the spec: the predefined type shapes \<^verbatim>\<open>FT.stringT\<close>, ... of
  \<^verbatim>\<open>ast-types\<close>, which is not among the sources. The nodes build literal values as
  \<^verbatim>\<open>{ ...FT.stringT, value: [...] }\<close> and list \<^verbatim>\<open>{ ...FT.boolT, aggregate: true }\<close> beside
  \<^verbatim>\<open>FT.boolT\<close>, so each shape carries \<^verbatim>\<open>aggregate: false\<close>.
\<close>

definition FT_stringT :: FragType where
  "FT_stringT = \<lparr>dataType = TString, aggregate = False\<rparr>"

definition FT_numberT :: FragType where
  "FT_numberT = \<lparr>dataType = TNumber, aggregate = False\<rparr>"

definition FT_boolT :: FragType where
  "FT_boolT = \<lparr>dataType = TBoolean, aggregate = False\<rparr>"

definition FT_dateT :: FragType where
  "FT_dateT = \<lparr>dataType = TDate, aggregate = False\<rparr>"

definition FT_timestampT :: FragType where
  "FT_timestampT = \<lparr>dataType = TTimestamp, aggregate = False\<rparr>"

definition FT_nullT :: FragType where
  "FT_nullT = \<lparr>dataType = TNull, aggregate = False\<rparr>"

text \<open>The object \<^verbatim>\<open>{ ...t, value: v }\<close> for a type shape \<open>t\<close>.\<close>

definition withValue :: "FragType \<Rightarrow> Fragment list \<Rightarrow> ExprValue" where
  "withValue t v = \<lparr>dataType = dataType t, aggregate = aggregate t, val = v, timeframe = None\<rparr>"

text \<open>
  Modelled from the spec: \<^verbatim>\<open>FT.in\<close> of \<^verbatim>\<open>ast-types\<close> (section 4.C: a value is legal when
  its dataType, and its aggregate flag when the legal entry specifies one, appears in the
  legal list). Every legal entry of this file specifies the flag.
\<close>

definition FT_in :: "'a FragType_scheme \<Rightarrow> FragType list \<Rightarrow> bool" where
  "FT_in check from =
     list_ex (\<lambda>okType. dataType okType = dataType check \<and> aggregate okType = aggregate check) from"

text \<open>
  Modelled from the spec: \<^verbatim>\<open>FT.typeEq\<close> of \<^verbatim>\<open>ast-types\<close> (section 3: two values are
  type-equal when their dataTypes match; the loose equality also takes null as equal to
  anything; the aggregate flag is never part of it).
\<close>

definition FT_typeEq :: "'a FragType_scheme \<Rightarrow> 'b FragType_scheme \<Rightarrow> bool \<Rightarrow> bool" where
  "FT_typeEq left right nullOk =
     (dataType left = dataType right \<or> (nullOk \<and> (dataType left = TNull \<or> dataType right = TNull)))"

text \<open>
  Modelled from the spec: \<^verbatim>\<open>FT.inspect\<close> of \<^verbatim>\<open>ast-types\<close>. Section 4.C gives the
  diagnostic of a failed type check as the dataType of the value; for several values the
  spec gives no separator and a comma is taken.
\<close>

fun FT_inspect :: "FieldValueType list \<Rightarrow> string" where
  "FT_inspect [] = []"
| "FT_inspect [t] = typeName t"
| "FT_inspect (t # ts) = typeName t @ '','' @ FT_inspect ts"

text \<open>
  Modelled from the spec: \<^verbatim>\<open>errorFor\<close> of \<^verbatim>\<open>ast-types\<close> (section 4.A: a value with
  dataType error and an empty fragment sequence).
\<close>

definition errorFor :: "string \<Rightarrow> ExprValue" where
  "errorFor reason = \<lparr>dataType = TError, aggregate = False, val = [], timeframe = None\<rparr>"

text \<open>
  Modelled from the spec: \<^verbatim>\<open>compose\<close> of \<^verbatim>\<open>ast-types\<close> (section 4.A:
  \<^verbatim>\<open>[...left, " op ", ...right]\<close>).
\<close>

definition compose :: "Fragment list \<Rightarrow> string \<Rightarrow> Fragment list \<Rightarrow> Fragment list" where
  "compose left opr right = left @ [Text ('' '' @ opr @ '' '')] @ right"

text \<open>
  Modelled from the spec: \<^verbatim>\<open>compressExpr\<close> of \<^verbatim>\<open>ast-types\<close> (section 3: adjacent
  literal-text fragments are merged into one, placeholders keep their positions).
\<close>

fun compressExpr :: "Fragment list \<Rightarrow> Fragment list" where
  "compressExpr (Text a # Text b # rest) = compressExpr (Text (a @ b) # rest)"
| "compressExpr (f # rest) = f # compressExpr rest"
| "compressExpr [] = []"

text \<open>
  Modelled from the spec: \<^verbatim>\<open>nullsafeNot\<close> of \<^verbatim>\<open>apply-expr\<close> (section 4.D:
  \<^verbatim>\<open>(x) is null or not (x)\<close>).
\<close>

definition nullsafeNot :: "Fragment list \<Rightarrow> Fragment list" where
  "nullsafeNot x = [Text ''(''] @ x @ [Text '') is null or not (''] @ x @ [Text '')'']"

text \<open>
  Modelled from the spec: \<^verbatim>\<open>FieldPath.body\<close> of \<^verbatim>\<open>field-path\<close> (section 4.E: the
  dotted name without its leaf segment; empty when there is no prefix).
\<close>

definition FieldPath_body :: "string \<Rightarrow> string" where
  "FieldPath_body p = rev (drop 1 (dropWhile (\<lambda>c. c \<noteq> CHR ''.'') (rev p)))"

text \<open>
  Modelled from the spec: \<^verbatim>\<open>isAtomicFieldType\<close> of \<^verbatim>\<open>model/malloy_types\<close>: the five
  scalar types a field can have (the cast types of this file).
\<close>

fun isAtomicFieldType :: "FieldValueType \<Rightarrow> bool" where
  "isAtomicFieldType TString = True"
| "isAtomicFieldType TNumber = True"
| "isAtomicFieldType TBoolean = True"
| "isAtomicFieldType TDate = True"
| "isAtomicFieldType TTimestamp = True"
| "isAtomicFieldType _ = False"

subsection \<open>Diagnostics and exceptions\<close>

text \<open>
  Translation writes diagnostics to a sink (\<^verbatim>\<open>log\<close>) and may throw. A computation takes
  the diagnostics logged so far and either throws or returns its result with the
  updated diagnostics. A diagnostic is its message; the source location that the sink
  attaches to it is not part of the model.
\<close>

datatype exn = Error string | TypeError string

type_synonym 'a M = "string list \<Rightarrow> exn + 'a \<times> string list"

definition retM :: "'a \<Rightarrow> 'a M" where
  "retM x = (\<lambda>diags. Inr (x, diags))"

definition bindM :: "'a M \<Rightarrow> ('a \<Rightarrow> 'b M) \<Rightarrow> 'b M" where
  "bindM m f = (\<lambda>diags. case m diags of Inl e \<Rightarrow> Inl e | Inr (x, diags') \<Rightarrow> f x diags')"

definition logM :: "string \<Rightarrow> unit M" where
  "logM msg = (\<lambda>diags. Inr ((), diags @ [msg]))"

definition throwM :: "exn \<Rightarrow> 'a M" where
  "throwM e = (\<lambda>diags. Inl e)"

text \<open>\<^verbatim>\<open>this.log(msg); return v\<close>\<close>

definition logReturn :: "string \<Rightarrow> 'a \<Rightarrow> 'a M" where
  "logReturn msg v = bindM (logM msg) (\<lambda>_. retM v)"

subsection \<open>The field space\<close>

text \<open>
  \<^verbatim>\<open>fs.field(name)\<close> yields an entry or \<^verbatim>\<open>undefined\<close>; the entry's \<^verbatim>\<open>type()\<close> has a
  type and an optional aggregate flag.
\<close>

record FieldType =
  ftype :: FieldValueType
  faggregate :: "bool option"

type_synonym FieldSpace = "string \<Rightarrow> FieldType option"

text \<open>\<^verbatim>\<open>!!typeMixin.aggregate\<close>\<close>

fun notnot :: "bool option \<Rightarrow> bool" where
  "notnot None = False"
| "notnot (Some b) = b"

section \<open>Expression nodes\<close>

datatype TimeType = DateT | TimestampT

fun timeTypeValue :: "TimeType \<Rightarrow> FieldValueType" where
  "timeTypeValue DateT = TDate"
| "timeTypeValue TimestampT = TTimestamp"

datatype CastType = CString | CNumber | CBoolean | CDate | CTimestamp

fun castTypeValue :: "CastType \<Rightarrow> FieldValueType" where
  "castTypeValue CString = TString"
| "castTypeValue CNumber = TNumber"
| "castTypeValue CBoolean = TBoolean"
| "castTypeValue CDate = TDate"
| "castTypeValue CTimestamp = TTimestamp"

datatype LogicalOp = OpAnd | OpOr

fun logicalOpText :: "LogicalOp \<Rightarrow> string" where
  "logicalOpText OpAnd = ''and''"
| "logicalOpText OpOr = ''or''"

datatype AddSubOp = OpPlus | OpMinus

fun addSubOpText :: "AddSubOp \<Rightarrow> string" where
  "addSubOpText OpPlus = ''+''"
| "addSubOpText OpMinus = ''-''"

datatype MulDivOp = OpTimes | OpDiv

fun mulDivOpText :: "MulDivOp \<Rightarrow> string" where
  "mulDivOpText OpTimes = ''*''"
| "mulDivOpText OpDiv = ''/''"

datatype AltOp = OpBar | OpAmp

text \<open>
  A \<^verbatim>\<open>Filter\<close> (of \<^verbatim>\<open>ast-main\<close>) is used through its method \<^verbatim>\<open>getFilterList(fs)\<close> only,
  so the node is represented by that method.
\<close>

datatype FilterNode = FilterNode (getFilterList: "FieldSpace \<Rightarrow> FilterCond list M")

text \<open>
  The subclasses of \<^verbatim>\<open>ExpressionDef\<close>. A \<^verbatim>\<open>WhenClause\<close> inside an \<^verbatim>\<open>ExprCase\<close> is the pair
  \<open>(whenThis, thenThis)\<close> and a \<^verbatim>\<open>PickWhen\<close> inside a \<^verbatim>\<open>Pick\<close> is the pair \<open>(pick, when)\<close>.
  The value of an \<^verbatim>\<open>ExprTime\<close> is a string or a fragment list. The members that take no part
  in the three methods below (\<^verbatim>\<open>granular\<close>, \<^verbatim>\<open>defaultFieldName\<close>, \<^verbatim>\<open>thisValueToTimestamp\<close>) and
  the classes \<^verbatim>\<open>ExpressionFieldDef\<close> and \<^verbatim>\<open>By\<close> are left out.
\<close>

datatype expr =
    ExprString string
  | ExprNumber string
  | ExprRegEx string
  | ExprTime TimeType "string + Fragment list" bool
  | ExprNot expr
  | Boolean bool
  | ExprLogicalOp expr LogicalOp expr
  | ExprField string
  | ExprNULL
  | ExprParens expr
  | ExprMinus expr
  | ExprAddSub expr AddSubOp expr
  | ExprMulDiv expr MulDivOp expr
  | ExprAlternationTree expr AltOp expr
  | ExprMin expr
  | ExprMax expr
  | ExprCountDistinct expr
  | ExprCount "string option"
  | ExprAvg "expr option" "string option"
  | ExprSum "expr option" "string option"
  | WhenClause expr expr
  | ExprCase "(expr \<times> expr) list" "expr option"
  | ExprFilter expr FilterNode
  | ExprCast expr CastType bool
  | ExprRange expr expr
  | Pick "(expr option \<times> expr) list" "expr option"

text \<open>
  \<^verbatim>\<open>applyBinary\<close> of \<^verbatim>\<open>apply-expr\<close> is not among the sources; every function below takes
  it as its first argument \<open>ab\<close>, so each result holds for every binary engine.
\<close>

type_synonym applyBinaryT = "FieldSpace \<Rightarrow> expr \<Rightarrow> string \<Rightarrow> expr \<Rightarrow> ExprValue M"

subsection \<open>\<^verbatim>\<open>ExpressionDef.typeCheck\<close>\<close>

text \<open>
  The first two arguments are \<^verbatim>\<open>this.elementType\<close> and \<^verbatim>\<open>this.legalChildTypes\<close>.
\<close>

definition typeCheck :: "string \<Rightarrow> FragType list \<Rightarrow> 'a FragType_scheme \<Rightarrow> bool M" where
  "typeCheck elementType legalChildTypes eVal =
     (if \<not> FT_in eVal legalChildTypes
      then logReturn (sq @ elementType @ sq @ '' Can't use type '' @ FT_inspect [dataType eVal]) False
      else retM True)"

subsection \<open>Non-recursive parts of the translations\<close>

text \<open>\<^verbatim>\<open>ExprTime\<close>: the constructor's \<^verbatim>\<open>translationValue\<close>.\<close>

definition translationValue :: "TimeType \<Rightarrow> string + Fragment list \<Rightarrow> bool \<Rightarrow> ExprValue" where
  "translationValue timeType v aggr =
     \<lparr>dataType = timeTypeValue timeType, aggregate = aggr,
      val = (case v of Inl s \<Rightarrow> [Text (sq @ s @ sq)] | Inr frags \<Rightarrow> frags),
      timeframe = None\<rparr>"

text \<open>\<^verbatim>\<open>ExprField.translation\<close>\<close>

definition fieldTranslation :: "FieldSpace \<Rightarrow> string \<Rightarrow> ExprValue M" where
  "fieldTranslation fs name =
     (case fs name of
        Some typeMixin \<Rightarrow>
          retM \<lparr>dataType = ftype typeMixin, aggregate = notnot (faggregate typeMixin),
                val = [FieldFragment name], timeframe = None\<rparr>
      | None \<Rightarrow>
          logReturn (''Reference to undefined field '' @ sq @ name) (errorFor (''undefined '' @ name)))"

text \<open>
  \<^verbatim>\<open>ExprAggregateFunction.translation\<close> after \<^verbatim>\<open>this.expr?.translation(fs)\<close>: \<open>exprVal0\<close> is
  that value, \<open>source0\<close> is \<^verbatim>\<open>this.source\<close>, \<open>func\<close> is both \<^verbatim>\<open>this.func\<close> and
  \<^verbatim>\<open>this.elementType\<close>.
\<close>

definition aggregateSource ::
  "FieldSpace \<Rightarrow> ExprValue option \<Rightarrow> string option \<Rightarrow> ExprValue option \<times> string option" where
  "aggregateSource fs exprVal0 source0 =
     (case source0 of
        None \<Rightarrow> (exprVal0, source0)
      | Some src \<Rightarrow>
          if src = [] then (exprVal0, source0)
          else (case fs src of
                  None \<Rightarrow> (exprVal0, source0)
                | Some footType \<Rightarrow>
                    if isAtomicFieldType (ftype footType)
                    then (Some \<lparr>dataType = ftype footType, aggregate = notnot (faggregate footType),
                                val = [FieldFragment src], timeframe = None\<rparr>,
                          if length (FieldPath_body src) > 0 then Some (FieldPath_body src) else None)
                    else (exprVal0, source0)))"

definition aggregateTranslation ::
  "FieldSpace \<Rightarrow> string \<Rightarrow> FragType list \<Rightarrow> (ExprValue \<Rightarrow> FieldValueType) \<Rightarrow>
   ExprValue option \<Rightarrow> string option \<Rightarrow> ExprValue M" where
  "aggregateTranslation fs func legalChildTypes returns exprVal0 source0 =
     (case aggregateSource fs exprVal0 source0 of
        (None, source) \<Rightarrow>
          logReturn ''Missing expression for aggregate function''
            (errorFor ''agggregate without expression'')
      | (Some exprVal, source) \<Rightarrow>
          bindM (typeCheck func legalChildTypes (exprVal\<lparr>aggregate := False\<rparr>)) (\<lambda>ok.
            if ok
            then retM \<lparr>dataType = returns exprVal, aggregate = True,
                       val = [AggregateFragment func (val exprVal)
                                (if truthy source then source else None)],
                       timeframe = None\<rparr>
            else retM (errorFor ''aggregate type check'')))"

text \<open>\<^verbatim>\<open>ExprAggregateFunction.returns\<close> and its override in \<^verbatim>\<open>ExprMin\<close> and \<^verbatim>\<open>ExprMax\<close>.\<close>

definition returnsNumber :: "ExprValue \<Rightarrow> FieldValueType" where
  "returnsNumber forExpression = TNumber"

definition returnsSame :: "ExprValue \<Rightarrow> FieldValueType" where
  "returnsSame forExpression = dataType forExpression"

text \<open>\<^verbatim>\<open>ExprCount.translation\<close>\<close>

definition countTranslation :: "string option \<Rightarrow> ExprValue" where
  "countTranslation source =
     \<lparr>dataType = TNumber, aggregate = True,
      val = [AggregateFragment ''count'' [] (if truthy source then source else None)],
      timeframe = None\<rparr>"

text \<open>\<^verbatim>\<open>ExprNot.translation\<close> after the operand's translation.\<close>

definition notTranslation :: "ExprValue \<Rightarrow> ExprValue M" where
  "notTranslation notThis =
     bindM (typeCheck ''not'' [FT_boolT, FT_nullT] notThis) (\<lambda>ok.
       if ok then retM (notThis\<lparr>dataType := TBoolean, val := nullsafeNot (val notThis)\<rparr>)
       else retM (errorFor ''not requires boolean''))"

text \<open>
  \<^verbatim>\<open>BinaryBoolean.translation\<close> after both operands' translations; \<^verbatim>\<open>&&\<close> checks the right
  operand only when the left one passed.
\<close>

definition binaryBooleanTranslation ::
  "string \<Rightarrow> FragType list \<Rightarrow> string \<Rightarrow> ExprValue \<Rightarrow> ExprValue \<Rightarrow> ExprValue M" where
  "binaryBooleanTranslation elementType legalChildTypes opr left right =
     bindM (typeCheck elementType legalChildTypes left) (\<lambda>okLeft.
       if okLeft
       then bindM (typeCheck elementType legalChildTypes right) (\<lambda>okRight.
              if okRight
              then retM \<lparr>dataType = TBoolean, aggregate = (aggregate left \<or> aggregate right),
                         val = compose (val left) opr (val right), timeframe = None\<rparr>
              else retM (errorFor ''logial required boolean''))
       else retM (errorFor ''logial required boolean''))"

text \<open>\<^verbatim>\<open>ExprMinus.translation\<close> after the operand's translation.\<close>

definition minusTranslation :: "ExprValue \<Rightarrow> ExprValue M" where
  "minusTranslation e =
     bindM (typeCheck ''unary minus'' [FT_numberT] e) (\<lambda>ok.
       if ok
       then (if length (val e) > 1
             then retM (e\<lparr>val := [Text ''-(''] @ val e @ [Text '')'']\<rparr>)
             else retM (e\<lparr>val := [Text ''-''] @ val e\<rparr>))
       else retM (errorFor ''negate requires number''))"

text \<open>\<^verbatim>\<open>ExprCast.translation\<close> after the operand's translation.\<close>

fun castTo :: "CastType \<Rightarrow> string" where
  "castTo CString = ''string''"
| "castTo CNumber = ''float64''"
| "castTo CBoolean = ''boolean''"
| "castTo CDate = ''date''"
| "castTo CTimestamp = ''timestamp''"

definition castTranslation :: "CastType \<Rightarrow> bool \<Rightarrow> ExprValue \<Rightarrow> ExprValue" where
  "castTranslation castType safe e =
     (let cast = (if safe then ''safe_cast'' else ''cast'');
          castValue0 = [Text (cast @ ''('')] @ val e @ [Text ('' as '' @ castTo castType @ '')'')];
          castValue = (if castType = CTimestamp \<and> dataType e = TDate
                       then [Text ''TIMESTAMP(''] @ val e @ [Text '')'']
                       else castValue0)
      in if castType = CDate \<and> dataType e = TTimestamp
         then \<lparr>dataType = TDate, aggregate = aggregate e,
               val = compressExpr ([Text ''DATE(''] @ val e @ [Text '')'']),
               timeframe = Some Day\<rparr>
         else e\<lparr>dataType := castTypeValue castType, val := compressExpr castValue\<rparr>)"

text \<open>
  \<^verbatim>\<open>ExprFilter.translation\<close> after \<^verbatim>\<open>getFilterList\<close> and the operand's translation. The loop
  over the conditions returns at the first aggregate one.
\<close>

definition filterTranslation :: "FilterCond list \<Rightarrow> ExprValue \<Rightarrow> ExprValue M" where
  "filterTranslation testList resultExpr =
     (if list_ex cond_aggregate testList
      then logReturn ''Cannot filter a field with an aggregate computation''
             (errorFor ''no filter on aggregate'')
      else if \<not> aggregate resultExpr then retM resultExpr
      else bindM (typeCheck ''filtered expression''
                    [FT_stringT, FT_numberT, FT_dateT, FT_timestampT]
                    (resultExpr\<lparr>aggregate := False\<rparr>)) (\<lambda>ok.
             if ok
             then retM (resultExpr\<lparr>val := [FilterFragment (val resultExpr) testList]\<rparr>)
             else logReturn (''Cannot filter '' @ sq @ typeName (dataType resultExpr) @ sq @ '' data'')
                    (errorFor ''cannot filter type'')))"

text \<open>
  \<^verbatim>\<open>ExprCase.translation\<close>: the state of the loop is \<open>(retType, aggregate, caseExpr)\<close>; a step
  either returns from the translation (\<open>Inl\<close>) or goes on (\<open>Inr\<close>).
\<close>

type_synonym caseState = "ExprValue option \<times> bool \<times> Fragment list"

definition caseWhenStep ::
  "caseState \<Rightarrow> ExprValue \<Rightarrow> ExprValue \<Rightarrow> (ExprValue + caseState) M" where
  "caseWhenStep st whenExpr thenExpr =
     (case st of (retType, aggr, caseExpr) \<Rightarrow>
        let aggr' = (aggr \<or> aggregate whenExpr \<or> aggregate thenExpr);
            caseExpr' = caseExpr @ [Text ''WHEN ''] @ val whenExpr @ [Text '' THEN ''] @ val thenExpr
        in if dataType thenExpr \<noteq> TNull
           then (case retType of
                   None \<Rightarrow> retM (Inr (Some thenExpr, aggr', caseExpr'))
                 | Some rt \<Rightarrow>
                     if \<not> FT_typeEq rt thenExpr False
                     then logReturn (''Mismatched THEN clause types, ''
                                       @ FT_inspect [dataType rt, dataType thenExpr])
                            (Inl (errorFor ''then typecheck''))
                     else retM (Inr (Some thenExpr, aggr', caseExpr')))
           else retM (Inr (retType, aggr', caseExpr')))"

definition caseElseStep :: "caseState \<Rightarrow> ExprValue \<Rightarrow> (ExprValue + caseState) M" where
  "caseElseStep st elseExpr =
     (case st of (retType, aggr, caseExpr) \<Rightarrow>
        let aggr' = (aggr \<or> aggregate elseExpr);
            caseExpr' = caseExpr @ [Text '' ELSE ''] @ val elseExpr
        in if dataType elseExpr \<noteq> TNull
           then (case retType of
                   None \<Rightarrow> retM (Inr (Some elseExpr, aggr', caseExpr'))
                 | Some rt \<Rightarrow>
                     if \<not> FT_typeEq rt elseExpr False
                     then logReturn (''Mismatched ELSE clause type, ''
                                       @ FT_inspect [dataType rt, dataType elseExpr])
                            (Inl (errorFor ''else typecheck''))
                     else retM (Inr (Some elseExpr, aggr', caseExpr')))
           else retM (Inr (retType, aggr', caseExpr')))"

definition caseFinish :: "caseState \<Rightarrow> ExprValue M" where
  "caseFinish st =
     (case st of (retType, aggr, caseExpr) \<Rightarrow>
        (case retType of
           None \<Rightarrow> logReturn ''case statement type not computable'' (errorFor ''typeless case'')
         | Some rt \<Rightarrow>
             retM \<lparr>dataType = dataType rt, aggregate = aggr,
                   val = caseExpr @ [Text '' END''], timeframe = None\<rparr>))"

text \<open>
  \<^verbatim>\<open>Pick.apply\<close>: the state of the loop is \<open>(returnType, anyAggregate, caseValue)\<close>.
\<close>

type_synonym pickState = "ExprValue option \<times> bool \<times> Fragment list"

definition pickApplyStep ::
  "pickState \<Rightarrow> ExprValue \<Rightarrow> ExprValue \<Rightarrow> (ExprValue + pickState) M" where
  "pickApplyStep st whenExpr thenExpr =
     (case st of (returnType, anyAggregate, caseValue) \<Rightarrow>
        let anyAggregate' = (anyAggregate \<or> aggregate whenExpr \<or> aggregate thenExpr);
            caseValue' = caseValue @ [Text '' WHEN ''] @ val whenExpr @ [Text '' THEN ''] @ val thenExpr
        in (case returnType of
              Some rt \<Rightarrow>
                if \<not> FT_typeEq rt thenExpr True
                then logReturn (''pick value types do not match ''
                                  @ FT_inspect [dataType rt, dataType thenExpr])
                       (Inl (errorFor ''pick value type''))
                else retM (Inr (Some rt, anyAggregate', caseValue'))
            | None \<Rightarrow> retM (Inr (Some thenExpr, anyAggregate', caseValue'))))"

definition pickApplyFinish :: "pickState \<Rightarrow> ExprValue \<Rightarrow> ExprValue M" where
  "pickApplyFinish st elseVal =
     (case st of (returnType0, anyAggregate, caseValue) \<Rightarrow>
        let returnType = (case returnType0 of Some rt \<Rightarrow> rt | None \<Rightarrow> elseVal)
        in if \<not> FT_typeEq returnType elseVal True
           then logReturn (''else value types do not match ''
                             @ FT_inspect [dataType returnType, dataType elseVal])
                  (errorFor ''pick else type'')
           else retM \<lparr>dataType = dataType returnType,
                      aggregate = (anyAggregate \<or> aggregate elseVal),
                      val = caseValue @ [Text '' ELSE ''] @ val elseVal @ [Text '' END''],
                      timeframe = None\<rparr>)"

text \<open>
  \<^verbatim>\<open>Pick.translation\<close>: the second loop, over the translated choices \<open>(pick, when)\<close>, with
  state \<open>(anyAggregate, caseValue)\<close>, and the part after it.
\<close>

fun pickCaseLoop ::
  "ExprValue \<Rightarrow> (ExprValue \<times> ExprValue) list \<Rightarrow> bool \<times> Fragment list \<Rightarrow>
   (ExprValue + bool \<times> Fragment list) M" where
  "pickCaseLoop returnType [] st = retM (Inr st)"
| "pickCaseLoop returnType ((aPick, aWhen) # rest) (anyAggregate, caseValue) =
     (if \<not> FT_typeEq aWhen FT_boolT False
      then logReturn (''Cannot generate value from pick. WHEN value of type ''
                        @ FT_inspect [dataType aWhen])
             (Inl (errorFor ''pick when type''))
      else if \<not> FT_typeEq returnType aPick True
      then logReturn (''pick value types do not match ''
                        @ FT_inspect [dataType returnType, dataType aPick])
             (Inl (errorFor ''pick value type''))
      else pickCaseLoop returnType rest
             ((anyAggregate \<or> aggregate aPick \<or> aggregate aWhen),
              caseValue @ [Text '' WHEN ''] @ val aWhen @ [Text '' THEN ''] @ val aPick))"

definition pickFinish :: "ExprValue \<Rightarrow> bool \<times> Fragment list \<Rightarrow> ExprValue \<Rightarrow> ExprValue M" where
  "pickFinish returnType st elseValue =
     (case st of (anyAggregate, caseValue) \<Rightarrow>
        if \<not> FT_typeEq returnType elseValue True
        then logReturn (''pick value types do not match ''
                          @ FT_inspect [dataType returnType, dataType elseValue])
               (errorFor ''pick vlaue type mismatch'')
        else retM \<lparr>dataType = dataType returnType,
                   aggregate = (anyAggregate \<or> aggregate elseValue),
                   val = caseValue @ [Text '' ELSE ''] @ val elseValue @ [Text '' END''],
                   timeframe = None\<rparr>)"

subsection \<open>\<^verbatim>\<open>translation\<close>, \<^verbatim>\<open>apply\<close> and \<^verbatim>\<open>requestTranslation\<close>\<close>

text \<open>
  The three methods of a node, with the loops of \<^verbatim>\<open>ExprCase.translation\<close> (\<open>caseWhens\<close>),
  \<^verbatim>\<open>Pick.apply\<close> (\<open>pickApplyChoices\<close>), \<^verbatim>\<open>Pick.requestTranslation\<close> (\<open>pickFindPartial\<close>, the
  \<^verbatim>\<open>find\<close> over the choices) and \<^verbatim>\<open>Pick.translation\<close> (\<open>pickChoiceValues\<close>, the first loop).
  \<^verbatim>\<open>apply\<close> is named \<open>apply_expr\<close>; its last argument is the other expression. A node
  that does not override \<^verbatim>\<open>apply\<close> or \<^verbatim>\<open>requestTranslation\<close> takes the default of
  \<^verbatim>\<open>ExpressionDef\<close>, the last case of each. Reading \<^verbatim>\<open>choiceValues[0].pick\<close> of an empty
  list throws a \<^verbatim>\<open>TypeError\<close>.
\<close>

function translation :: "applyBinaryT \<Rightarrow> FieldSpace \<Rightarrow> expr \<Rightarrow> ExprValue M"
  and apply_expr :: "applyBinaryT \<Rightarrow> FieldSpace \<Rightarrow> expr \<Rightarrow> string \<Rightarrow> expr \<Rightarrow> ExprValue M"
  and requestTranslation :: "applyBinaryT \<Rightarrow> FieldSpace \<Rightarrow> expr \<Rightarrow> ExprValue option M"
  and caseWhens :: "applyBinaryT \<Rightarrow> FieldSpace \<Rightarrow> (expr \<times> expr) list \<Rightarrow> caseState \<Rightarrow> (ExprValue + caseState) M"
  and pickApplyChoices :: "applyBinaryT \<Rightarrow> FieldSpace \<Rightarrow> (expr option \<times> expr) list \<Rightarrow> expr \<Rightarrow> pickState \<Rightarrow> (ExprValue + pickState) M"
  and pickFindPartial :: "applyBinaryT \<Rightarrow> FieldSpace \<Rightarrow> (expr option \<times> expr) list \<Rightarrow> bool M"
  and pickChoiceValues :: "applyBinaryT \<Rightarrow> FieldSpace \<Rightarrow> (expr option \<times> expr) list \<Rightarrow> (ExprValue \<times> ExprValue) list \<Rightarrow> (ExprValue + (ExprValue \<times> ExprValue) list) M"
where
  "translation ab fs (ExprString v) = retM (withValue FT_stringT [Text v])"
| "translation ab fs (ExprNumber n) = retM (withValue FT_numberT [Text n])"
| "translation ab fs (ExprRegEx regex) =
     retM \<lparr>dataType = TRegularExpression, aggregate = False,
           val = [Text (''r'' @ sq @ regex @ sq)], timeframe = None\<rparr>"
| "translation ab fs (ExprTime timeType v aggr) = retM (translationValue timeType v aggr)"
| "translation ab fs (ExprNot e) = bindM (translation ab fs e) notTranslation"
| "translation ab fs (Boolean b) = retM (withValue FT_boolT [Text (if b then ''true'' else ''false'')])"
| "translation ab fs (ExprLogicalOp l opr r) =
     bindM (translation ab fs l) (\<lambda>left.
     bindM (translation ab fs r) (\<lambda>right.
       binaryBooleanTranslation ''logical operator'' [FT_boolT, FT_boolT\<lparr>aggregate := True\<rparr>]
         (logicalOpText opr) left right))"
| "translation ab fs (ExprField name) = fieldTranslation fs name"
| "translation ab fs ExprNULL =
     retM \<lparr>dataType = TNull, aggregate = False, val = [Text ''NULL''], timeframe = None\<rparr>"
| "translation ab fs (ExprParens e) =
     bindM (translation ab fs e) (\<lambda>subExpr.
       retM (subExpr\<lparr>val := [Text ''(''] @ val subExpr @ [Text '')'']\<rparr>))"
| "translation ab fs (ExprMinus e) = bindM (translation ab fs e) minusTranslation"
| "translation ab fs (ExprAddSub l opr r) = apply_expr ab fs r (addSubOpText opr) l"
| "translation ab fs (ExprMulDiv l opr r) = apply_expr ab fs r (mulDivOpText opr) l"
| "translation ab fs (ExprAlternationTree l opr r) =
     logReturn ''Alternation tree has no value'' (errorFor ''no value from alternation tree'')"
| "translation ab fs (ExprMin e) =
     bindM (translation ab fs e) (\<lambda>exprVal.
       aggregateTranslation fs ''min'' [FT_numberT, FT_stringT, FT_dateT, FT_timestampT]
         returnsSame (Some exprVal) None)"
| "translation ab fs (ExprMax e) =
     bindM (translation ab fs e) (\<lambda>exprVal.
       aggregateTranslation fs ''max'' [FT_numberT, FT_stringT, FT_dateT, FT_timestampT]
         returnsSame (Some exprVal) None)"
| "translation ab fs (ExprCountDistinct e) =
     bindM (translation ab fs e) (\<lambda>exprVal.
       aggregateTranslation fs ''count_distinct'' [FT_numberT, FT_stringT, FT_dateT, FT_timestampT]
         returnsNumber (Some exprVal) None)"
| "translation ab fs (ExprCount source) = retM (countTranslation source)"
| "translation ab fs (ExprAvg None source) =
     aggregateTranslation fs ''avg'' [FT_numberT] returnsNumber None source"
| "translation ab fs (ExprAvg (Some e) source) =
     bindM (translation ab fs e) (\<lambda>exprVal.
       aggregateTranslation fs ''avg'' [FT_numberT] returnsNumber (Some exprVal) source)"
| "translation ab fs (ExprSum None source) =
     aggregateTranslation fs ''sum'' [FT_numberT] returnsNumber None source"
| "translation ab fs (ExprSum (Some e) source) =
     bindM (translation ab fs e) (\<lambda>exprVal.
       aggregateTranslation fs ''sum'' [FT_numberT] returnsNumber (Some exprVal) source)"
| "translation ab fs (WhenClause whenThis thenThis) =
     throwM (Error (''expression did something unxpected with '' @ sq @ ''WHEN'' @ sq))"
| "translation ab fs (ExprCase whens None) =
     bindM (caseWhens ab fs whens (None, False, [Text ''CASE ''])) (\<lambda>r.
       case r of Inl v \<Rightarrow> retM v | Inr st \<Rightarrow> caseFinish st)"
| "translation ab fs (ExprCase whens (Some elseClause)) =
     bindM (caseWhens ab fs whens (None, False, [Text ''CASE ''])) (\<lambda>r.
       case r of
         Inl v \<Rightarrow> retM v
       | Inr st \<Rightarrow>
           bindM (translation ab fs elseClause) (\<lambda>elseExpr.
           bindM (caseElseStep st elseExpr) (\<lambda>r'.
             case r' of Inl v \<Rightarrow> retM v | Inr st' \<Rightarrow> caseFinish st')))"
| "translation ab fs (ExprFilter e filt) =
     bindM (getFilterList filt fs) (\<lambda>testList.
     bindM (translation ab fs e) (\<lambda>resultExpr.
       filterTranslation testList resultExpr))"
| "translation ab fs (ExprCast e castType safe) =
     bindM (translation ab fs e) (\<lambda>v. retM (castTranslation castType safe v))"
| "translation ab fs (ExprRange firstE lastE) = retM (errorFor ''a range is not a value'')"
| "translation ab fs (Pick choices None) =
     logReturn (sq @ ''pick'' @ sq @ '' has no value, must specify '' @ sq @ ''else'' @ sq
                  @ '' or use '' @ sq @ '':'' @ sq)
       (errorFor ''no value for partial pick'')"
| "translation ab fs (Pick choices (Some elsePick)) =
     bindM (pickChoiceValues ab fs choices []) (\<lambda>r.
       case r of
         Inl v \<Rightarrow> retM v
       | Inr choiceValues \<Rightarrow>
           (case choiceValues of
              [] \<Rightarrow> throwM (TypeError ''Cannot read properties of undefined (reading 'pick')'')
            | first # rest \<Rightarrow>
                bindM (pickCaseLoop (fst first) choiceValues (aggregate (fst first), [Text ''CASE''])) (\<lambda>r'.
                  case r' of
                    Inl v \<Rightarrow> retM v
                  | Inr st \<Rightarrow>
                      bindM (translation ab fs elsePick) (\<lambda>elseValue.
                        pickFinish (fst first) st elseValue))))"

| "apply_expr ab fs this opr e =
     (case this of
        ExprParens inner \<Rightarrow> apply_expr ab fs inner opr e
      | ExprAlternationTree l aop r \<Rightarrow>
          bindM (apply_expr ab fs l opr e) (\<lambda>choice1.
          bindM (apply_expr ab fs r opr e) (\<lambda>choice2.
            retM \<lparr>dataType = TBoolean, aggregate = (aggregate choice1 \<or> aggregate choice2),
                  val = compose (val choice1) (if aop = OpAmp then ''and'' else ''or'') (val choice2),
                  timeframe = None\<rparr>))
      | ExprRange firstE lastE \<Rightarrow>
          if opr = ''='' \<or> opr = ''!=''
          then bindM (apply_expr ab fs firstE (if opr = ''='' then ''>='' else ''<'') e) (\<lambda>fromValue.
               bindM (apply_expr ab fs lastE (if opr = ''='' then ''<'' else ''>='') e) (\<lambda>toValue.
                 retM \<lparr>dataType = TBoolean, aggregate = (aggregate fromValue \<or> aggregate toValue),
                       val = compose (val fromValue) (if opr = ''='' then ''and'' else ''or'') (val toValue),
                       timeframe = None\<rparr>))
          else if opr = ''>'' then apply_expr ab fs lastE ''>='' e
          else if opr = ''>='' then apply_expr ab fs firstE ''>='' e
          else if opr = ''<'' then apply_expr ab fs firstE ''<'' e
          else if opr = ''<='' then apply_expr ab fs lastE ''<'' e
          else throwM (Error ''mysterious error in range computation'')
      | Pick choices elsePick \<Rightarrow>
          bindM (pickApplyChoices ab fs choices e (None, False, [Text ''CASE''])) (\<lambda>r.
            case r of
              Inl v \<Rightarrow> retM v
            | Inr st \<Rightarrow>
                bindM (translation ab fs (case elsePick of Some elsePart \<Rightarrow> elsePart | None \<Rightarrow> e))
                  (pickApplyFinish st))
      | _ \<Rightarrow> ab fs e opr this)"

| "requestTranslation ab fs this =
     (case this of
        ExprParens inner \<Rightarrow> requestTranslation ab fs inner
      | ExprAlternationTree l aop r \<Rightarrow> retM None
      | ExprRange firstE lastE \<Rightarrow> retM None
      | Pick choices elsePick \<Rightarrow>
          if elsePick = None then retM None
          else bindM (pickFindPartial ab fs choices) (\<lambda>found.
                 if found then retM None
                 else bindM (translation ab fs this) (\<lambda>v. retM (Some v)))
      | _ \<Rightarrow> bindM (translation ab fs this) (\<lambda>v. retM (Some v)))"

| "caseWhens ab fs [] st = retM (Inr st)"
| "caseWhens ab fs ((whenThis, thenThis) # rest) st =
     bindM (translation ab fs whenThis) (\<lambda>whenExpr.
     bindM (translation ab fs thenThis) (\<lambda>thenExpr.
     bindM (caseWhenStep st whenExpr thenExpr) (\<lambda>r.
       case r of Inl v \<Rightarrow> retM (Inl v) | Inr st' \<Rightarrow> caseWhens ab fs rest st')))"

| "pickApplyChoices ab fs [] e st = retM (Inr st)"
| "pickApplyChoices ab fs ((None, whenE) # rest) e st =
     bindM (apply_expr ab fs whenE ''='' e) (\<lambda>whenExpr.
     bindM (translation ab fs e) (\<lambda>thenExpr.
     bindM (pickApplyStep st whenExpr thenExpr) (\<lambda>r.
       case r of Inl v \<Rightarrow> retM (Inl v) | Inr st' \<Rightarrow> pickApplyChoices ab fs rest e st')))"
| "pickApplyChoices ab fs ((Some pickE, whenE) # rest) e st =
     bindM (apply_expr ab fs whenE ''='' e) (\<lambda>whenExpr.
     bindM (translation ab fs pickE) (\<lambda>thenExpr.
     bindM (pickApplyStep st whenExpr thenExpr) (\<lambda>r.
       case r of Inl v \<Rightarrow> retM (Inl v) | Inr st' \<Rightarrow> pickApplyChoices ab fs rest e st')))"

| "pickFindPartial ab fs [] = retM False"
| "pickFindPartial ab fs ((None, whenE) # rest) = retM True"
| "pickFindPartial ab fs ((Some pickE, whenE) # rest) =
     bindM (requestTranslation ab fs whenE) (\<lambda>r.
       if r = None then retM True else pickFindPartial ab fs rest)"

| "pickChoiceValues ab fs [] acc = retM (Inr acc)"
| "pickChoiceValues ab fs ((None, whenE) # rest) acc =
     logReturn ''pick with no value can only be used with apply''
       (Inl (errorFor ''no value for partial pick''))"
| "pickChoiceValues ab fs ((Some pickE, whenE) # rest) acc =
     bindM (requestTranslation ab fs whenE) (\<lambda>pickWhen.
       if pickWhen = None
       then logReturn ''pick with partial when can only be used with apply''
              (Inl (errorFor ''partial when''))
       else bindM (translation ab fs pickE) (\<lambda>pickV.
            bindM (translation ab fs whenE) (\<lambda>whenV.
              pickChoiceValues ab fs rest (acc @ [(pickV, whenV)]))))"
  by pat_completeness auto

termination
  apply (relation "measure (\<lambda>x. case x of
      Inl (Inl (ab, fs, e)) \<Rightarrow> 3 * size e
    | Inl (Inr (Inl (ab, fs, this, opr, e))) \<Rightarrow> 3 * (size this + size e) + 2
    | Inl (Inr (Inr (ab, fs, e))) \<Rightarrow> 3 * size e + 1
    | Inr (Inl (Inl (ab, fs, ws, st))) \<Rightarrow> 3 * size_list (size_prod size size) ws
    | Inr (Inl (Inr (ab, fs, cs, e, st))) \<Rightarrow> 3 * (size_list (size_prod (size_option size) size) cs + size e) + 2
    | Inr (Inr (Inl (ab, fs, cs))) \<Rightarrow> 3 * size_list (size_prod (size_option size) size) cs
    | Inr (Inr (Inr (ab, fs, cs, acc))) \<Rightarrow> 3 * size_list (size_prod (size_option size) size) cs)")
  apply (auto split: option.splits)
  done


declare apply_expr.simps [simp del]

declare requestTranslation.simps [simp del]

section \<open>Partial nodes and example inputs\<close>

text \<open>
  The nodes whose \<^verbatim>\<open>requestTranslation\<close> denies, read off \<open>requestTranslation\<close>: a range, an
  alternation tree, a pick without else or with a choice that has no pick value or a
  partial when, and parentheses around such a node.
\<close>

fun isPartial :: "expr \<Rightarrow> bool"
  and anyPartial :: "(expr option \<times> expr) list \<Rightarrow> bool" where
  "isPartial e =
     (case e of
        ExprParens inner \<Rightarrow> isPartial inner
      | ExprAlternationTree l aop r \<Rightarrow> True
      | ExprRange firstE lastE \<Rightarrow> True
      | Pick choices elsePick \<Rightarrow> elsePick = None \<or> anyPartial choices
      | _ \<Rightarrow> False)"
| "anyPartial [] = False"
| "anyPartial ((p, w) # rest) = (p = None \<or> isPartial w \<or> anyPartial rest)"

declare isPartial.simps [simp del]

text \<open>
  Inputs for the examples below: a binary engine that composes the translations of two
  leaf operands with the operator into a boolean (section 4.D of the spec: same-type
  comparisons compose directly), a field space with a number \<open>x\<close> and an aggregate
  number \<open>sold\<close>, and a filter with a given list of conditions.
\<close>

definition leafBinary :: applyBinaryT where
  "leafBinary fs left opr right = throwM (Error ''operand is not a leaf'')"

definition exampleBinary :: applyBinaryT where
  "exampleBinary fs left opr right =
     bindM (translation leafBinary fs left) (\<lambda>l.
     bindM (translation leafBinary fs right) (\<lambda>r.
       retM \<lparr>dataType = TBoolean, aggregate = (aggregate l \<or> aggregate r),
             val = compose (val l) opr (val r), timeframe = None\<rparr>))"

definition exampleSpace :: FieldSpace where
  "exampleSpace name =
     (if name = ''x'' then Some \<lparr>ftype = TNumber, faggregate = None\<rparr>
      else if name = ''sold'' then Some \<lparr>ftype = TNumber, faggregate = Some True\<rparr>
      else None)"

definition exampleFilter :: "FilterCond list \<Rightarrow> FilterNode" where
  "exampleFilter conds = FilterNode (\<lambda>fs. retM conds)"

section \<open>Basic facts\<close>

lemma retM_apply [simp]: "retM x d = Inr (x, d)"
  by (simp add: retM_def)

lemma throwM_apply [simp]: "throwM e d = Inl e"
  by (simp add: throwM_def)

lemma logReturn_apply [simp]: "logReturn msg v d = Inr (v, d @ [msg])"
  by (simp add: logReturn_def bindM_def logM_def retM_def)

lemma bindM_apply [simp]: "bindM m f d = (case m d of Inl e \<Rightarrow> Inl e | Inr (x, d') \<Rightarrow> f x d')"
  by (simp add: bindM_def)

lemma bindM_retM [simp]: "bindM (retM x) f = f x"
  by (rule ext) (simp add: bindM_def retM_def)

lemma bindM_throwM [simp]: "bindM (throwM e) f = throwM e"
  by (rule ext) (simp add: bindM_def throwM_def)

lemma aggregateSource_no_source [simp]: "aggregateSource fs exprVal None = (exprVal, None)"
  by (simp add: aggregateSource_def)

lemma apply_expr_ExprParens [simp]:
  "apply_expr ab fs (ExprParens inner) opr e = apply_expr ab fs inner opr e"
  by (subst apply_expr.simps) simp

lemma apply_expr_ExprAlternationTree [simp]:
  "apply_expr ab fs (ExprAlternationTree l aop r) opr e =
     bindM (apply_expr ab fs l opr e) (\<lambda>choice1.
     bindM (apply_expr ab fs r opr e) (\<lambda>choice2.
       retM \<lparr>dataType = TBoolean, aggregate = (aggregate choice1 \<or> aggregate choice2),
             val = compose (val choice1) (if aop = OpAmp then ''and'' else ''or'') (val choice2),
             timeframe = None\<rparr>))"
  by (subst apply_expr.simps) simp

lemma apply_expr_ExprRange:
  "apply_expr ab fs (ExprRange firstE lastE) opr e =
     (if opr = ''='' \<or> opr = ''!=''
      then bindM (apply_expr ab fs firstE (if opr = ''='' then ''>='' else ''<'') e) (\<lambda>fromValue.
           bindM (apply_expr ab fs lastE (if opr = ''='' then ''<'' else ''>='') e) (\<lambda>toValue.
             retM \<lparr>dataType = TBoolean, aggregate = (aggregate fromValue \<or> aggregate toValue),
                   val = compose (val fromValue) (if opr = ''='' then ''and'' else ''or'') (val toValue),
                   timeframe = None\<rparr>))
      else if opr = ''>'' then apply_expr ab fs lastE ''>='' e
      else if opr = ''>='' then apply_expr ab fs firstE ''>='' e
      else if opr = ''<'' then apply_expr ab fs firstE ''<'' e
      else if opr = ''<='' then apply_expr ab fs lastE ''<'' e
      else throwM (Error ''mysterious error in range computation''))"
  by (subst apply_expr.simps) simp

lemma apply_expr_leaf:
  "apply_expr ab fs (ExprNumber n) opr e = ab fs e opr (ExprNumber n)"
  "apply_expr ab fs (ExprString s) opr e = ab fs e opr (ExprString s)"
  "apply_expr ab fs (ExprField f) opr e = ab fs e opr (ExprField f)"
  by (subst apply_expr.simps, simp)+

lemma requestTranslation_ExprParens [simp]:
  "requestTranslation ab fs (ExprParens inner) = requestTranslation ab fs inner"
  by (subst requestTranslation.simps) simp

lemma requestTranslation_Pick:
  "requestTranslation ab fs (Pick choices elsePick) =
     (if elsePick = None then retM None
      else bindM (pickFindPartial ab fs choices) (\<lambda>found.
             if found then retM None
             else bindM (translation ab fs (Pick choices elsePick)) (\<lambda>v. retM (Some v))))"
  by (subst requestTranslation.simps) simp

lemmas eval_simps =
  apply_expr.simps requestTranslation.simps exampleBinary_def leafBinary_def exampleSpace_def
  exampleFilter_def withValue_def FT_stringT_def FT_numberT_def FT_boolT_def FT_dateT_def
  FT_timestampT_def FT_nullT_def fieldTranslation_def errorFor_def compose_def sq_def
  typeCheck_def FT_in_def FT_typeEq_def aggregateTranslation_def aggregateSource_def
  returnsNumber_def returnsSame_def notTranslation_def minusTranslation_def
  binaryBooleanTranslation_def castTranslation_def filterTranslation_def pickFinish_def
  pickApplyFinish_def pickApplyStep_def caseWhenStep_def caseElseStep_def caseFinish_def
  nullsafeNot_def countTranslation_def translationValue_def

lemma isPartial_ExprParens [simp]: "isPartial (ExprParens inner) = isPartial inner"
  by (subst isPartial.simps) simp

lemma isPartial_Pick [simp]: "isPartial (Pick choices elsePick) = (elsePick = None \<or> anyPartial choices)"
  by (subst isPartial.simps) simp

lemma anyPartial_iff: "anyPartial cs = (\<exists>(p, w) \<in> set cs. p = None \<or> isPartial w)"
  by (induction cs) auto

lemma size_choice_when:
  "(p, w) \<in> set cs \<Longrightarrow> size w < Suc (size_list (size_prod (size_option size) size) cs)"
  by (induction cs) auto

lemma denies_iff_partial:
  "requestTranslation ab fs e d = Inr (r, d') \<Longrightarrow> (r = None) = isPartial e"
proof (induction e arbitrary: d r d' rule: measure_induct_rule [of size])
  case (less e)
  have find: "f = anyPartial cs"
    if "\<forall>(p, w) \<in> set cs. size w < size e" and "pickFindPartial ab fs cs d0 = Inr (f, d1)"
    for cs d0 f d1
    using that
  proof (induction cs arbitrary: d0)
    case Nil
    then show ?case by simp
  next
    case (Cons c cs)
    obtain p w where c: "c = (p, w)" by (cases c)
    show ?case
    proof (cases p)
      case None
      with Cons.prems c show ?thesis by simp
    next
      case (Some pe)
      from Cons.prems(2) c Some obtain r0 d2
        where rt: "requestTranslation ab fs w d0 = Inr (r0, d2)"
          and rest: "(if r0 = None then retM True else pickFindPartial ab fs cs) d2 = Inr (f, d1)"
        by (auto split: sum.splits)
      have "size w < size e" using Cons.prems(1) c by simp
      then have part: "(r0 = None) = isPartial w" using less.IH rt by blast
      show ?thesis
      proof (cases "r0 = None")
        case True
        with rest part c Some show ?thesis by simp
      next
        case False
        with rest have "pickFindPartial ab fs cs d2 = Inr (f, d1)" by simp
        moreover have "\<forall>(p, w) \<in> set cs. size w < size e" using Cons.prems(1) by simp
        ultimately have "f = anyPartial cs" using Cons.IH by blast
        with False part c Some show ?thesis by simp
      qed
    qed
  qed
  show ?case
  proof (cases e)
    case (ExprParens inner)
    with less.prems have "requestTranslation ab fs inner d = Inr (r, d')" by simp
    moreover have "size inner < size e" using ExprParens by simp
    ultimately have "(r = None) = isPartial inner" using less.IH by blast
    with ExprParens show ?thesis by simp
  next
    case (Pick cs el)
    show ?thesis
    proof (cases el)
      case None
      with Pick less.prems show ?thesis by (simp add: requestTranslation_Pick)
    next
      case (Some elsePick)
      from less.prems Pick Some obtain found d1
        where f: "pickFindPartial ab fs cs d = Inr (found, d1)"
          and rest: "(if found then retM None
                      else bindM (translation ab fs e) (\<lambda>v. retM (Some v))) d1 = Inr (r, d')"
        by (auto simp add: requestTranslation_Pick simp del: translation.simps split: sum.splits)
      have "\<forall>(p, w) \<in> set cs. size w < size e"
        using Pick size_choice_when by fastforce
      then have fa: "found = anyPartial cs" using find f by blast
      show ?thesis
      proof (cases found)
        case True
        with rest fa Pick Some show ?thesis by simp
      next
        case False
        with rest have "r \<noteq> None" by (auto simp del: translation.simps split: sum.splits)
        with False fa Pick Some show ?thesis by simp
      qed
    qed
  qed (use less.prems in \<open>auto simp add: requestTranslation.simps isPartial.simps
        simp del: translation.simps split: sum.splits\<close>)
qed

lemma pickFindPartial_anyPartial:
  "pickFindPartial ab fs cs d = Inr (f, d') \<Longrightarrow> f = anyPartial cs"
proof (induction cs arbitrary: d)
  case Nil
  then show ?case by simp
next
  case (Cons c cs)
  obtain p w where c: "c = (p, w)" by (cases c)
  show ?case
  proof (cases p)
    case None
    with Cons.prems c show ?thesis by simp
  next
    case (Some pe)
    from Cons.prems c Some obtain r0 d2
      where rt: "requestTranslation ab fs w d = Inr (r0, d2)"
        and rest: "(if r0 = None then retM True else pickFindPartial ab fs cs) d2 = Inr (f, d')"
      by (auto split: sum.splits)
    have part: "(r0 = None) = isPartial w" using denies_iff_partial rt by blast
    show ?thesis
    proof (cases "r0 = None")
      case True
      with rest part c Some show ?thesis by simp
    next
      case False
      with rest have "pickFindPartial ab fs cs d2 = Inr (f, d')" by simp
      then have "f = anyPartial cs" using Cons.IH by blast
      with False part c Some show ?thesis by simp
    qed
  qed
qed

lemma pickFindPartial_True:
  "pickFindPartial ab fs cs d = Inr (True, d') \<Longrightarrow>
     \<exists>(p, w) \<in> set cs. p = None \<or> (\<exists>d1 d2. requestTranslation ab fs w d1 = Inr (None, d2))"
proof (induction cs arbitrary: d)
  case Nil
  then show ?case by simp
next
  case (Cons c cs)
  obtain p w where c: "c = (p, w)" by (cases c)
  show ?case
  proof (cases p)
    case None
    with c show ?thesis by simp
  next
    case (Some pe)
    from Cons.prems c Some obtain r0 d2
      where rt: "requestTranslation ab fs w d = Inr (r0, d2)"
        and rest: "(if r0 = None then retM True else pickFindPartial ab fs cs) d2 = Inr (True, d')"
      by (auto split: sum.splits)
    show ?thesis
    proof (cases "r0 = None")
      case True
      with rt have "\<exists>d1 d2. requestTranslation ab fs w d1 = Inr (None, d2)" by blast
      with c show ?thesis by simp
    next
      case False
      with rest have "pickFindPartial ab fs cs d2 = Inr (True, d')" by simp
      then have "\<exists>(p, w) \<in> set cs. p = None \<or> (\<exists>d1 d2. requestTranslation ab fs w d1 = Inr (None, d2))"
        using Cons.IH by blast
      then show ?thesis by auto
    qed
  qed
qed

section \<open>Claims\<close>

text \<open>
  C1. For every field space and expressions \<open>firstE\<close>, \<open>lastE\<close>, \<open>v\<close>, applying the range
  \<open>firstE to lastE\<close> to \<open>v\<close> gives: for \<^verbatim>\<open>=\<close> the boolean value of \<open>v >= firstE\<close> composed by
  \<^verbatim>\<open>and\<close> with \<open>v < lastE\<close>; for \<^verbatim>\<open>!=\<close> that of \<open>v < firstE\<close> composed by \<^verbatim>\<open>or\<close> with
  \<open>v >= lastE\<close>; for \<^verbatim>\<open>>\<close> \<open>v >= lastE\<close>; for \<^verbatim>\<open>>=\<close> \<open>v >= firstE\<close>; for \<^verbatim>\<open><\<close>
  \<open>v < firstE\<close>; for \<^verbatim>\<open><=\<close> \<open>v < lastE\<close>. For \<^verbatim>\<open>=\<close> and \<^verbatim>\<open>!=\<close> the aggregate flag is the
  disjunction of the flags of the two sub-applications and the dataType is boolean.
  Here \<open>v op firstE\<close> is \<open>firstE.apply(fs, op, v)\<close> (for a literal or a field \<open>firstE\<close> that
  is \<open>applyBinary(fs, v, op, firstE)\<close>), and an exception of a sub-application is the
  exception of the whole.
\<close>

theorem Range_apply:
  "apply_expr ab fs (ExprRange firstE lastE) ''='' v =
     bindM (apply_expr ab fs firstE ''>='' v) (\<lambda>fromValue.
     bindM (apply_expr ab fs lastE ''<'' v) (\<lambda>toValue.
       retM \<lparr>dataType = TBoolean, aggregate = (aggregate fromValue \<or> aggregate toValue),
             val = compose (val fromValue) ''and'' (val toValue), timeframe = None\<rparr>))
   \<and> apply_expr ab fs (ExprRange firstE lastE) ''!='' v =
     bindM (apply_expr ab fs firstE ''<'' v) (\<lambda>fromValue.
     bindM (apply_expr ab fs lastE ''>='' v) (\<lambda>toValue.
       retM \<lparr>dataType = TBoolean, aggregate = (aggregate fromValue \<or> aggregate toValue),
             val = compose (val fromValue) ''or'' (val toValue), timeframe = None\<rparr>))
   \<and> apply_expr ab fs (ExprRange firstE lastE) ''>'' v = apply_expr ab fs lastE ''>='' v
   \<and> apply_expr ab fs (ExprRange firstE lastE) ''>='' v = apply_expr ab fs firstE ''>='' v
   \<and> apply_expr ab fs (ExprRange firstE lastE) ''<'' v = apply_expr ab fs firstE ''<'' v
   \<and> apply_expr ab fs (ExprRange firstE lastE) ''<='' v = apply_expr ab fs lastE ''<'' v"
  by (simp add: apply_expr_ExprRange)

text \<open>The range \<open>1 to 10\<close> applied with \<^verbatim>\<open>=\<close> to the field \<open>x\<close> (scenario S3 of the spec).\<close>

theorem Range_apply_witness:
  "apply_expr exampleBinary exampleSpace (ExprRange (ExprNumber ''1'') (ExprNumber ''10'')) ''=''
     (ExprField ''x'') [] =
   Inr (\<lparr>dataType = TBoolean, aggregate = False,
         val = [FieldFragment ''x'', Text '' >= '', Text ''1'', Text '' and '',
                FieldFragment ''x'', Text '' < '', Text ''10''],
         timeframe = None\<rparr>, [])"
  using Range_apply [of exampleBinary exampleSpace "ExprNumber ''1''" "ExprNumber ''10''" "ExprField ''x''"]
  by (simp add: eval_simps)

text \<open>
  C2. For every alternation tree \<open>l op r\<close> with \<open>op\<close> one of \<^verbatim>\<open>|\<close> and \<^verbatim>\<open>&\<close>, every operator
  \<open>applyOp\<close>, field space and expression \<open>other\<close>: applying the tree to \<open>other\<close> composes
  \<open>other applyOp l\<close> and \<open>other applyOp r\<close> by \<^verbatim>\<open>or\<close> when \<open>op\<close> is \<^verbatim>\<open>|\<close> and by \<^verbatim>\<open>and\<close> when it
  is \<^verbatim>\<open>&\<close>, with dataType boolean and the disjunction of the two aggregate flags.
\<close>

theorem alternation_apply_distributes:
  "apply_expr ab fs (ExprAlternationTree l aop r) applyOp other =
     bindM (apply_expr ab fs l applyOp other) (\<lambda>choice1.
     bindM (apply_expr ab fs r applyOp other) (\<lambda>choice2.
       retM \<lparr>dataType = TBoolean, aggregate = (aggregate choice1 \<or> aggregate choice2),
             val = compose (val choice1) (case aop of OpBar \<Rightarrow> ''or'' | OpAmp \<Rightarrow> ''and'') (val choice2),
             timeframe = None\<rparr>))"
  by (cases aop) simp_all

text \<open>The alternation \<open>1 | 2\<close> applied with \<^verbatim>\<open>=\<close> to the field \<open>x\<close> (scenario S4 of the spec).\<close>

theorem alternation_apply_distributes_witness:
  "apply_expr exampleBinary exampleSpace (ExprAlternationTree (ExprNumber ''1'') OpBar (ExprNumber ''2''))
     ''='' (ExprField ''x'') [] =
   Inr (\<lparr>dataType = TBoolean, aggregate = False,
         val = [FieldFragment ''x'', Text '' = '', Text ''1'', Text '' or '',
                FieldFragment ''x'', Text '' = '', Text ''2''],
         timeframe = None\<rparr>, [])"
  using alternation_apply_distributes [of exampleBinary exampleSpace "ExprNumber ''1''" OpBar
      "ExprNumber ''2''" "''=''" "ExprField ''x''"]
  by (simp add: eval_simps)

text \<open>
  C3. If the translation of a node is an error value, at least one diagnostic has been
  logged, in particular when a range is asked for its translation. The code does not
  do this for a range: translated from an empty sink, the range \<open>1 to 10\<close> returns an
  error value and the sink is still empty, for every binary engine and field space.
  (The translation of an alternation tree, the other node without a value, logs.)
\<close>

theorem Range_translation_logs_nothing:
  "translation ab fs (ExprRange (ExprNumber ''1'') (ExprNumber ''10'')) [] =
     Inr (errorFor ''a range is not a value'', [])
   \<and> dataType (errorFor ''a range is not a value'') = TError
   \<and> translation ab fs (ExprAlternationTree (ExprNumber ''1'') OpBar (ExprNumber ''10'')) [] =
     Inr (errorFor ''no value from alternation tree'', [''Alternation tree has no value''])"
  by (simp add: errorFor_def)

text \<open>
  C4. An error value is inert: a later consumer, such as the type check of a not, a
  boolean operator, a unary minus or an aggregate function, logs no new diagnostic and
  makes no new error from it. The code does not hold this: the not of an undefined field
  logs the diagnostic of the field and then one of its own.
\<close>

theorem error_value_not_inert_counterexample:
  "translation exampleBinary exampleSpace (ExprField ''y'') [] =
     Inr (errorFor ''undefined y'', [''Reference to undefined field 'y''])
   \<and> translation exampleBinary exampleSpace (ExprNot (ExprField ''y'')) [] =
     Inr (errorFor ''not requires boolean'',
          [''Reference to undefined field 'y'', sq @ ''not'' @ sq @ '' Can't use type error''])"
  by (simp add: eval_simps)

text \<open>
  C4 as amended. When the operand of a not, a unary minus or an aggregate function (sum,
  avg, count_distinct, min, max, without a source) or the left operand of a logical
  operator translates to an error value, the type check of the consumer fails: the consumer logs exactly one new diagnostic, \<^verbatim>\<open>'<elementType>' Can't
  use type error\<close>, after those of its operands, and returns a new error value.
\<close>

theorem error_value_fails_typeCheck:
  assumes "translation ab fs e d = Inr (v, d1)" and "dataType v = TError"
  shows "translation ab fs (ExprNot e) d =
           Inr (errorFor ''not requires boolean'', d1 @ [sq @ ''not'' @ sq @ '' Can't use type error''])
       \<and> translation ab fs (ExprMinus e) d =
           Inr (errorFor ''negate requires number'',
                d1 @ [sq @ ''unary minus'' @ sq @ '' Can't use type error''])
       \<and> translation ab fs (ExprSum (Some e) None) d =
           Inr (errorFor ''aggregate type check'', d1 @ [sq @ ''sum'' @ sq @ '' Can't use type error''])
       \<and> translation ab fs (ExprAvg (Some e) None) d =
           Inr (errorFor ''aggregate type check'', d1 @ [sq @ ''avg'' @ sq @ '' Can't use type error''])
       \<and> translation ab fs (ExprCountDistinct e) d =
           Inr (errorFor ''aggregate type check'',
                d1 @ [sq @ ''count_distinct'' @ sq @ '' Can't use type error''])
       \<and> translation ab fs (ExprMin e) d =
           Inr (errorFor ''aggregate type check'', d1 @ [sq @ ''min'' @ sq @ '' Can't use type error''])
       \<and> translation ab fs (ExprMax e) d =
           Inr (errorFor ''aggregate type check'', d1 @ [sq @ ''max'' @ sq @ '' Can't use type error''])
       \<and> (\<forall>r rv d2. translation ab fs r d1 = Inr (rv, d2) \<longrightarrow>
            translation ab fs (ExprLogicalOp e opr r) d =
              Inr (errorFor ''logial required boolean'',
                   d2 @ [sq @ ''logical operator'' @ sq @ '' Can't use type error'']))"
  using assms
  by (simp add: notTranslation_def minusTranslation_def aggregateTranslation_def
      aggregateSource_def binaryBooleanTranslation_def typeCheck_def FT_in_def FT_numberT_def
      FT_boolT_def FT_nullT_def FT_stringT_def FT_dateT_def FT_timestampT_def)

text \<open>The not of a range, and a range as the left operand of \<^verbatim>\<open>and\<close>.\<close>

theorem error_value_fails_typeCheck_witness:
  "translation exampleBinary exampleSpace (ExprNot (ExprRange (ExprNumber ''1'') (ExprNumber ''2''))) [] =
     Inr (errorFor ''not requires boolean'', [sq @ ''not'' @ sq @ '' Can't use type error''])
   \<and> translation exampleBinary exampleSpace
       (ExprLogicalOp (ExprRange (ExprNumber ''1'') (ExprNumber ''2'')) OpAnd (Boolean True)) [] =
     Inr (errorFor ''logial required boolean'',
          [sq @ ''logical operator'' @ sq @ '' Can't use type error''])"
proof -
  have h: "translation exampleBinary exampleSpace (ExprRange (ExprNumber ''1'') (ExprNumber ''2'')) [] =
             Inr (errorFor ''a range is not a value'', [])"
    by simp
  have t: "dataType (errorFor ''a range is not a value'') = TError"
    by (simp add: errorFor_def)
  have b: "translation exampleBinary exampleSpace (Boolean True) [] =
             Inr (withValue FT_boolT [Text ''true''], [])"
    by simp
  note c = error_value_fails_typeCheck [OF h t, of OpAnd]
  note l = c [THEN conjunct2, THEN conjunct2, THEN conjunct2, THEN conjunct2, THEN conjunct2,
      THEN conjunct2, THEN conjunct2, rule_format, OF b]
  show ?thesis
    using c [THEN conjunct1] l by simp
qed

text \<open>
  C5. An aggregate function whose determined expression is itself aggregate logs a
  type mismatch and returns an error value. The code does not do this: the type check
  is made on the expression with its aggregate flag set to false, so the sum of the
  aggregate number \<open>sold\<close> passes it, logs nothing and returns an aggregate number.
\<close>

theorem aggregate_of_aggregate_counterexample:
  "translation exampleBinary exampleSpace (ExprSum (Some (ExprField ''sold'')) None) [] =
     Inr (\<lparr>dataType = TNumber, aggregate = True,
           val = [AggregateFragment ''sum'' [FieldFragment ''sold''] None], timeframe = None\<rparr>, [])
   \<and> translation exampleBinary exampleSpace (ExprField ''sold'') [] =
     Inr (\<lparr>dataType = TNumber, aggregate = True, val = [FieldFragment ''sold''], timeframe = None\<rparr>, [])"
  by (simp add: eval_simps)

text \<open>
  C5 as amended. Let \<open>v0\<close> be the translation of the expression of an aggregate function
  and \<open>v\<close> the determined expression (\<open>v0\<close>, or the field named by the source). When the
  dataType of the determined expression is not a legal child type (number for sum and
  avg; number, string, date and timestamp for count_distinct, min and max), whatever its
  aggregate flag, the translation logs \<^verbatim>\<open>'<func>' Can't use type <dataType>\<close> and returns
  an error value. Otherwise the result is aggregate, holds one aggregate fragment, and
  its dataType is number for sum, avg and count_distinct and the dataType of the child
  for min and max. The same holds for a sum or an avg without an expression, whose
  determined expression \<open>w\<close> is the field named by its source: no operand is translated
  and the diagnostics are those before the call.
\<close>

theorem aggregate_function_translation:
  assumes "translation ab fs e d = Inr (v0, d1)"
    and "aggregateSource fs (Some v0) source = (Some v, src)"
  shows "translation ab fs (ExprSum (Some e) source) d =
           (if dataType v = TNumber
            then Inr (\<lparr>dataType = TNumber, aggregate = True,
                       val = [AggregateFragment ''sum'' (val v) (if truthy src then src else None)],
                       timeframe = None\<rparr>, d1)
            else Inr (errorFor ''aggregate type check'',
                      d1 @ [sq @ ''sum'' @ sq @ '' Can't use type '' @ typeName (dataType v)]))
       \<and> translation ab fs (ExprAvg (Some e) source) d =
           (if dataType v = TNumber
            then Inr (\<lparr>dataType = TNumber, aggregate = True,
                       val = [AggregateFragment ''avg'' (val v) (if truthy src then src else None)],
                       timeframe = None\<rparr>, d1)
            else Inr (errorFor ''aggregate type check'',
                      d1 @ [sq @ ''avg'' @ sq @ '' Can't use type '' @ typeName (dataType v)]))
       \<and> translation ab fs (ExprCountDistinct e) d =
           (if dataType v0 \<in> {TNumber, TString, TDate, TTimestamp}
            then Inr (\<lparr>dataType = TNumber, aggregate = True,
                       val = [AggregateFragment ''count_distinct'' (val v0) None],
                       timeframe = None\<rparr>, d1)
            else Inr (errorFor ''aggregate type check'',
                      d1 @ [sq @ ''count_distinct'' @ sq @ '' Can't use type '' @ typeName (dataType v0)]))
       \<and> translation ab fs (ExprMin e) d =
           (if dataType v0 \<in> {TNumber, TString, TDate, TTimestamp}
            then Inr (\<lparr>dataType = dataType v0, aggregate = True,
                       val = [AggregateFragment ''min'' (val v0) None], timeframe = None\<rparr>, d1)
            else Inr (errorFor ''aggregate type check'',
                      d1 @ [sq @ ''min'' @ sq @ '' Can't use type '' @ typeName (dataType v0)]))
       \<and> translation ab fs (ExprMax e) d =
           (if dataType v0 \<in> {TNumber, TString, TDate, TTimestamp}
            then Inr (\<lparr>dataType = dataType v0, aggregate = True,
                       val = [AggregateFragment ''max'' (val v0) None], timeframe = None\<rparr>, d1)
            else Inr (errorFor ''aggregate type check'',
                      d1 @ [sq @ ''max'' @ sq @ '' Can't use type '' @ typeName (dataType v0)]))
       \<and> (\<forall>src0 w wsrc. aggregateSource fs None src0 = (Some w, wsrc) \<longrightarrow>
            translation ab fs (ExprSum None src0) d =
              (if dataType w = TNumber
               then Inr (\<lparr>dataType = TNumber, aggregate = True,
                          val = [AggregateFragment ''sum'' (val w) (if truthy wsrc then wsrc else None)],
                          timeframe = None\<rparr>, d)
               else Inr (errorFor ''aggregate type check'',
                         d @ [sq @ ''sum'' @ sq @ '' Can't use type '' @ typeName (dataType w)]))
          \<and> translation ab fs (ExprAvg None src0) d =
              (if dataType w = TNumber
               then Inr (\<lparr>dataType = TNumber, aggregate = True,
                          val = [AggregateFragment ''avg'' (val w) (if truthy wsrc then wsrc else None)],
                          timeframe = None\<rparr>, d)
               else Inr (errorFor ''aggregate type check'',
                         d @ [sq @ ''avg'' @ sq @ '' Can't use type '' @ typeName (dataType w)])))"
  using assms
  by (auto simp add: aggregateTranslation_def typeCheck_def FT_in_def
      FT_numberT_def FT_stringT_def FT_dateT_def FT_timestampT_def returnsNumber_def returnsSame_def)

text \<open>
  The min of a string literal, the sum of one, and the sum and the avg without an
  expression over the source \<open>sold\<close>, an aggregate number.
\<close>

theorem aggregate_function_translation_witness:
  "translation exampleBinary exampleSpace (ExprMin (ExprString ''a'')) [] =
     Inr (\<lparr>dataType = TString, aggregate = True,
           val = [AggregateFragment ''min'' [Text ''a''] None], timeframe = None\<rparr>, [])
   \<and> translation exampleBinary exampleSpace (ExprSum (Some (ExprString ''a'')) None) [] =
     Inr (errorFor ''aggregate type check'', [sq @ ''sum'' @ sq @ '' Can't use type string''])
   \<and> translation exampleBinary exampleSpace (ExprSum None (Some ''sold'')) [] =
     Inr (\<lparr>dataType = TNumber, aggregate = True,
           val = [AggregateFragment ''sum'' [FieldFragment ''sold''] None], timeframe = None\<rparr>, [])
   \<and> translation exampleBinary exampleSpace (ExprAvg None (Some ''sold'')) [] =
     Inr (\<lparr>dataType = TNumber, aggregate = True,
           val = [AggregateFragment ''avg'' [FieldFragment ''sold''] None], timeframe = None\<rparr>, [])"
proof -
  have h: "translation exampleBinary exampleSpace (ExprString ''a'') [] =
      Inr (\<lparr>dataType = TString, aggregate = False, val = [Text ''a''], timeframe = None\<rparr>, [])"
    by (simp add: eval_simps)
  have s: "aggregateSource exampleSpace
      (Some \<lparr>dataType = TString, aggregate = False, val = [Text ''a''], timeframe = None\<rparr>) None =
      (Some \<lparr>dataType = TString, aggregate = False, val = [Text ''a''], timeframe = None\<rparr>, None)"
    by (simp add: aggregateSource_def)
  have n: "aggregateSource exampleSpace None (Some ''sold'') =
      (Some \<lparr>dataType = TNumber, aggregate = True, val = [FieldFragment ''sold''], timeframe = None\<rparr>,
       None)"
    by (simp add: aggregateSource_def exampleSpace_def FieldPath_body_def)
  note c = aggregate_function_translation [OF h s]
  note l = c [THEN conjunct2, THEN conjunct2, THEN conjunct2, THEN conjunct2, THEN conjunct2,
      rule_format, OF n]
  show ?thesis
    using c l by (simp add: sq_def)
qed

text \<open>
  C6. The translation of a field reference \<open>n\<close> that the field space does not know logs
  exactly \<^verbatim>\<open>Reference to undefined field 'n'\<close> and returns an error value. The code logs
  the message without the closing quote: for the field \<open>x\<close> and a field space without
  it, the diagnostic is \<^verbatim>\<open>Reference to undefined field 'x\<close>.
\<close>

theorem undefined_field_message:
  "translation ab (\<lambda>n. None) (ExprField ''x'') [] =
     Inr (errorFor ''undefined x'', [''Reference to undefined field 'x''])
   \<and> ''Reference to undefined field 'x'' \<noteq> ''Reference to undefined field 'x'' @ sq"
  by (simp add: fieldTranslation_def sq_def)

text \<open>
  C7. For a filtered expression whose filter conditions are all non-aggregate, if the
  translation of the expression is not aggregate, the translation of the filtered
  expression is that translation (same value, same diagnostics); and if some filter
  condition is aggregate, the translation logs \<^verbatim>\<open>Cannot filter a field with an aggregate
  computation\<close> and returns an error value, whatever the translation of the expression
  is. The filter conditions and the translation of the expression are the ones that
  \<^verbatim>\<open>getFilterList\<close> and \<^verbatim>\<open>translation\<close> return, in this order.
\<close>

theorem filter_translation:
  assumes "getFilterList filt fs d = Inr (testList, d1)"
    and "translation ab fs e d1 = Inr (rv, d2)"
  shows "((\<forall>c \<in> set testList. \<not> cond_aggregate c) \<and> \<not> aggregate rv \<longrightarrow>
            translation ab fs (ExprFilter e filt) d = Inr (rv, d2))
       \<and> ((\<exists>c \<in> set testList. cond_aggregate c) \<longrightarrow>
            translation ab fs (ExprFilter e filt) d =
              Inr (errorFor ''no filter on aggregate'',
                   d2 @ [''Cannot filter a field with an aggregate computation'']))"
  using assms by (simp add: filterTranslation_def list_ex_iff)

text \<open>The field \<open>x\<close> under a filter with one non-aggregate, and with one aggregate condition.\<close>

theorem filter_translation_witness:
  "translation exampleBinary exampleSpace
     (ExprFilter (ExprField ''x'') (exampleFilter [FilterCond [Text ''a''] False])) [] =
   Inr (\<lparr>dataType = TNumber, aggregate = False, val = [FieldFragment ''x''], timeframe = None\<rparr>, [])
   \<and> translation exampleBinary exampleSpace
     (ExprFilter (ExprField ''x'') (exampleFilter [FilterCond [Text ''a''] True])) [] =
   Inr (errorFor ''no filter on aggregate'', [''Cannot filter a field with an aggregate computation''])"
proof -
  have x: "translation exampleBinary exampleSpace (ExprField ''x'') [] =
      Inr (\<lparr>dataType = TNumber, aggregate = False, val = [FieldFragment ''x''], timeframe = None\<rparr>, [])"
    by (simp add: eval_simps)
  have f1: "getFilterList (exampleFilter [FilterCond [Text ''a''] False]) exampleSpace [] =
      Inr ([FilterCond [Text ''a''] False], [])"
    by (simp add: exampleFilter_def)
  have f2: "getFilterList (exampleFilter [FilterCond [Text ''a''] True]) exampleSpace [] =
      Inr ([FilterCond [Text ''a''] True], [])"
    by (simp add: exampleFilter_def)
  show ?thesis
    using filter_translation [OF f1 x] filter_translation [OF f2 x] by simp
qed

text \<open>
  C8. The \<^verbatim>\<open>requestTranslation\<close> of a pick denies exactly when the else clause is missing or
  the \<^verbatim>\<open>requestTranslation\<close> of some when clause denies. The code also denies when a choice
  has no pick value: the pick with the one choice \<open>when true\<close> (no pick value) and the else
  \<open>0\<close> denies, though the else is there and the when clause does not deny.
\<close>

theorem pick_requestTranslation_counterexample:
  "requestTranslation exampleBinary exampleSpace
     (Pick [(None, Boolean True)] (Some (ExprNumber ''0''))) [] = Inr (None, [])
   \<and> requestTranslation exampleBinary exampleSpace (Boolean True) [] =
       Inr (Some \<lparr>dataType = TBoolean, aggregate = False, val = [Text ''true''], timeframe = None\<rparr>, [])"
  by (simp add: eval_simps)

text \<open>
  C8 as amended. When the \<^verbatim>\<open>requestTranslation\<close> of a pick returns, it denies exactly when
  the else clause is missing, or some choice has no pick value, or the \<^verbatim>\<open>requestTranslation\<close>
  of the when clause of some choice denies; in every other case it returns the
  translation of the pick (made after the diagnostics of the when clauses).
\<close>

theorem pick_requestTranslation:
  assumes "requestTranslation ab fs (Pick choices elsePick) d = Inr (r, d')"
  shows "(r = None \<longleftrightarrow>
            (elsePick = None
             \<or> (\<exists>(p, w) \<in> set choices.
                   p = None \<or> (\<exists>d1 d2. requestTranslation ab fs w d1 = Inr (None, d2)))))
       \<and> (\<forall>v. r = Some v \<longrightarrow> (\<exists>d1. translation ab fs (Pick choices elsePick) d1 = Inr (v, d')))"
proof (cases elsePick)
  case None
  with assms show ?thesis by (simp add: requestTranslation_Pick)
next
  case (Some el)
  from assms Some obtain found d1
    where f: "pickFindPartial ab fs choices d = Inr (found, d1)"
      and rest: "(if found then retM None
                  else bindM (translation ab fs (Pick choices elsePick)) (\<lambda>v. retM (Some v))) d1
                 = Inr (r, d')"
    by (auto simp add: requestTranslation_Pick simp del: translation.simps split: sum.splits)
  show ?thesis
  proof (cases found)
    case True
    with rest have "r = None" by simp
    moreover from f True have "pickFindPartial ab fs choices d = Inr (True, d1)" by simp
    then have "\<exists>(p, w) \<in> set choices.
        p = None \<or> (\<exists>d1 d2. requestTranslation ab fs w d1 = Inr (None, d2))"
      by (rule pickFindPartial_True)
    ultimately show ?thesis by simp
  next
    case False
    with rest obtain v where v: "translation ab fs (Pick choices elsePick) d1 = Inr (v, d')"
      and r: "r = Some v"
      by (auto simp del: translation.simps split: sum.splits)
    have "\<not> anyPartial choices" using pickFindPartial_anyPartial [OF f] False by simp
    then have np: "\<forall>(p, w) \<in> set choices. p \<noteq> None \<and> \<not> isPartial w"
      by (auto simp add: anyPartial_iff)
    have "\<not> (\<exists>(p, w) \<in> set choices.
        p = None \<or> (\<exists>d1 d2. requestTranslation ab fs w d1 = Inr (None, d2)))"
    proof
      assume "\<exists>(p, w) \<in> set choices.
        p = None \<or> (\<exists>d1 d2. requestTranslation ab fs w d1 = Inr (None, d2))"
      then obtain p w d1 d2 where in_cs: "(p, w) \<in> set choices"
        and alt: "p = None \<or> requestTranslation ab fs w d1 = Inr (None, d2)"
        by auto
      from np in_cs have pn: "p \<noteq> None" and nw: "\<not> isPartial w" by auto
      from alt pn have "requestTranslation ab fs w d1 = Inr (None, d2)" by simp
      then have "(None = (None :: ExprValue option)) = isPartial w" by (rule denies_iff_partial)
      with nw show False by simp
    qed
    with r v Some show ?thesis by auto
  qed
qed

text \<open>The pick \<open>pick 1 when true else 0\<close> (scenario S6 of the spec).\<close>

theorem pick_requestTranslation_witness:
  "\<exists>d1. translation exampleBinary exampleSpace
     (Pick [(Some (ExprNumber ''1''), Boolean True)] (Some (ExprNumber ''0''))) d1 =
   Inr (\<lparr>dataType = TNumber, aggregate = False,
         val = [Text ''CASE'', Text '' WHEN '', Text ''true'', Text '' THEN '', Text ''1'',
                Text '' ELSE '', Text ''0'', Text '' END''],
         timeframe = None\<rparr>, [])"
proof -
  have h: "requestTranslation exampleBinary exampleSpace
             (Pick [(Some (ExprNumber ''1''), Boolean True)] (Some (ExprNumber ''0''))) [] =
           Inr (Some \<lparr>dataType = TNumber, aggregate = False,
                  val = [Text ''CASE'', Text '' WHEN '', Text ''true'', Text '' THEN '', Text ''1'',
                         Text '' ELSE '', Text ''0'', Text '' END''],
                  timeframe = None\<rparr>, [])"
    by (simp add: eval_simps)
  show ?thesis
    using pick_requestTranslation [OF h] by blast
qed

text \<open>
  C9. The translation of a cast of \<open>e\<close> to \<open>t\<close> emits \<^verbatim>\<open>cast(e as t)\<close>, \<^verbatim>\<open>safe_cast\<close> when safe
  is set. The code does not emit the name of the type for number: the cast of the field
  \<open>x\<close> to number is \<^verbatim>\<open>cast(x as float64)\<close>.
\<close>

theorem cast_number_counterexample:
  "translation exampleBinary exampleSpace (ExprCast (ExprField ''x'') CNumber False) [] =
     Inr (\<lparr>dataType = TNumber, aggregate = False,
           val = [Text ''cast('', FieldFragment ''x'', Text '' as float64)''], timeframe = None\<rparr>, [])
   \<and> [Text ''cast('', FieldFragment ''x'', Text '' as float64)'']
       \<noteq> [Text ''cast('', FieldFragment ''x'', Text '' as number)'']"
  by (simp add: eval_simps)

text \<open>
  C9 as amended. When \<open>e\<close> translates to \<open>v\<close>, the translation of the cast of \<open>e\<close> to \<open>t\<close> logs
  nothing more and returns the compressed fragments of \<^verbatim>\<open>cast(e as T)\<close>, \<^verbatim>\<open>safe_cast(e as T)\<close>
  when safe is set, where \<open>T\<close> is \<^verbatim>\<open>float64\<close> when \<open>t\<close> is number and the name of \<open>t\<close> otherwise;
  except that a date cast to timestamp gives \<^verbatim>\<open>TIMESTAMP(e)\<close> and a timestamp cast to date
  gives \<^verbatim>\<open>DATE(e)\<close> with timeframe day. The dataType of the result is \<open>t\<close> and its aggregate
  flag is that of \<open>v\<close>.
\<close>

theorem cast_translation:
  assumes "translation ab fs e d = Inr (v, d1)"
  shows "\<exists>v'. translation ab fs (ExprCast e t safe) d = Inr (v', d1)
           \<and> dataType v' = castTypeValue t
           \<and> aggregate v' = aggregate v
           \<and> val v' = compressExpr
                (if t = CTimestamp \<and> dataType v = TDate then [Text ''TIMESTAMP(''] @ val v @ [Text '')'']
                 else if t = CDate \<and> dataType v = TTimestamp then [Text ''DATE(''] @ val v @ [Text '')'']
                 else [Text ((if safe then ''safe_cast'' else ''cast'') @ ''('')] @ val v
                        @ [Text ('' as '' @ (if t = CNumber then ''float64'' else typeName (castTypeValue t)) @ '')'')])
           \<and> timeframe v' = (if t = CDate \<and> dataType v = TTimestamp then Some Day else timeframe v)"
  using assms by (cases t) (auto simp add: castTranslation_def Let_def)

text \<open>The safe cast of a timestamp literal to date.\<close>

theorem cast_translation_witness:
  "\<exists>v'. translation exampleBinary exampleSpace
           (ExprCast (ExprTime TimestampT (Inl ''2021-01-01'') False) CDate True) [] = Inr (v', [])
     \<and> dataType v' = TDate \<and> aggregate v' = False
     \<and> val v' = [Text (''DATE('' @ sq @ ''2021-01-01'' @ sq @ '')'')]
     \<and> timeframe v' = Some Day"
proof -
  have h: "translation exampleBinary exampleSpace (ExprTime TimestampT (Inl ''2021-01-01'') False) [] =
      Inr (\<lparr>dataType = TTimestamp, aggregate = False,
            val = [Text (sq @ ''2021-01-01'' @ sq)], timeframe = None\<rparr>, [])"
    by (simp add: eval_simps)
  show ?thesis
    using cast_translation [OF h, of CDate True] by (simp add: sq_def)
qed

text \<open>
  C10. The translation of a pick is defined only when the list of choices is not empty:
  for a pick with an else clause and no choice, the translation reads the first element
  of the empty list of choice values and throws; so a translation that returns has at
  least one choice.
\<close>

theorem pick_translation_needs_choice:
  "translation ab fs (Pick [] (Some elsePick)) d =
     Inl (TypeError ''Cannot read properties of undefined (reading 'pick')'')
   \<and> (\<forall>r. translation ab fs (Pick choices (Some elsePick)) d = Inr r \<longrightarrow> choices \<noteq> [])"
  by auto

text \<open>The pick \<open>pick 1 when true else 0\<close> has a choice and its translation returns.\<close>

theorem pick_translation_needs_choice_witness:
  "translation exampleBinary exampleSpace
     (Pick [(Some (ExprNumber ''1''), Boolean True)] (Some (ExprNumber ''0''))) [] =
   Inr (\<lparr>dataType = TNumber, aggregate = False,
         val = [Text ''CASE'', Text '' WHEN '', Text ''true'', Text '' THEN '', Text ''1'',
                Text '' ELSE '', Text ''0'', Text '' END''],
         timeframe = None\<rparr>, [])
   \<and> [(Some (ExprNumber ''1''), Boolean True)] \<noteq> ([] :: (expr option \<times> expr) list)"
  using pick_translation_needs_choice [of exampleBinary exampleSpace "ExprNumber ''0''" "[]"
      "[(Some (ExprNumber ''1''), Boolean True)]"]
  by (simp add: eval_simps)

end
